theory Spec2Isabelle
  imports Complex_Main "HOL-Library.Word"
begin

unbundle bit_operations_syntax

section \<open>The image processing service of rembg-api\<close>

subsection \<open>Images\<close>

text \<open>
  A decoded PIL image, as far as \<^verbatim>\<open>app/services/image_processor.py\<close> looks at it:
  \<^verbatim>\<open>image.format\<close> (a string or \<^verbatim>\<open>None\<close>), \<^verbatim>\<open>image.size\<close> (the pair
  width, height of Python integers) and the raster itself, which the service never
  inspects and which is kept as an opaque list of numbers.
\<close>

record image =
  format :: "string option"
  size_wh :: "int \<times> int"
  pixels :: "nat list"

subsection \<open>Python's \<^verbatim>\<open>str\<close> of an integer\<close>

fun str_nat :: "nat \<Rightarrow> string" where
  "str_nat n =
     (if n < 10 then [''0123456789'' ! n]
      else str_nat (n div 10) @ [''0123456789'' ! (n mod 10)])"

declare str_nat.simps [simp del]

definition str_int :: "int \<Rightarrow> string" where
  "str_int i = (if i < 0 then CHR ''-'' # str_nat (nat (- i)) else str_nat (nat i))"

subsection \<open>The validator\<close>

text \<open>
  \<^verbatim>\<open>SUPPORTED_FORMATS = {'PNG', 'JPEG', 'JPG', 'WEBP', 'BMP'}\<close> and
  \<^verbatim>\<open>MAX_IMAGE_SIZE = 4096 * 4096\<close>.
\<close>

definition SUPPORTED_FORMATS :: "string set" where
  "SUPPORTED_FORMATS = {''PNG'', ''JPEG'', ''JPG'', ''WEBP'', ''BMP''}"

definition MAX_IMAGE_SIZE :: int where
  "MAX_IMAGE_SIZE = 4096 * 4096"

text \<open>
  The message of the format branch interpolates \<^verbatim>\<open>{SUPPORTED_FORMATS}\<close>, the
  \<^verbatim>\<open>str\<close> of a Python set, whose element order depends on the interpreter's string
  hashing. That text is the parameter \<open>fmts\<close> of the validator. The letter
  \<^verbatim>\<open>e\<close> with acute accent of the message is the character of code 233.
\<close>

definition validate_image :: "string \<Rightarrow> image \<Rightarrow> bool \<times> string option" where
  "validate_image fmts img =
     (if format img \<noteq> None \<and> the (format img) \<notin> SUPPORTED_FORMATS then
        (False, Some (''Format '' @ the (format img) @ '' non support'' @ [CHR 0xE9]
                      @ ''. Formats accept'' @ [CHR 0xE9] @ ''s : '' @ fmts))
      else
        (case size_wh img of (width, height) \<Rightarrow>
           if width * height > MAX_IMAGE_SIZE then
             (False, Some (''Image trop grande ('' @ str_int width @ ''x'' @ str_int height
                           @ ''). Maximum : '' @ str_int MAX_IMAGE_SIZE @ '' pixels''))
           else if width < 10 \<or> height < 10 then
             (False, Some ''Image trop petite (minimum 10x10 pixels)'')
           else (True, None)))"

subsection \<open>Exceptions\<close>

text \<open>
  The exceptions the service and the router tell apart: \<^verbatim>\<open>ValueError\<close> (caught first by
  the router), FastAPI's \<^verbatim>\<open>HTTPException\<close> with its status code and detail, and any other
  subclass of \<^verbatim>\<open>Exception\<close>, of which only the message is ever read. All three are
  subclasses of \<^verbatim>\<open>Exception\<close>, so an \<^verbatim>\<open>except Exception\<close> clause catches each of them.
\<close>

datatype exn = ValueError string | HTTPException nat string | Exception string

subsection \<open>The libraries the service calls\<close>

text \<open>
  The keyword arguments of a call of \<^verbatim>\<open>rembg.remove\<close>; a call without keyword arguments
  is recorded as \<open>None\<close>.
\<close>

record kwargs =
  alpha_matting :: bool
  alpha_matting_foreground_threshold :: int
  alpha_matting_background_threshold :: int
  alpha_matting_erode_size :: int

type_synonym byte = "8 word"

text \<open>
  What the service imports and does not define: the text of \<^verbatim>\<open>str(SUPPORTED_FORMATS)\<close>,
  the background removal model \<^verbatim>\<open>rembg.remove\<close>, PIL's decoder (\<^verbatim>\<open>Image.open\<close> followed
  by \<^verbatim>\<open>image.load\<close>) and encoder (\<^verbatim>\<open>image.save\<close> into a buffer), the readings of
  \<^verbatim>\<open>time.time()\<close> in the order they are taken, and \<^verbatim>\<open>str\<close> of an \<^verbatim>\<open>HTTPException\<close>.
  Each call either returns or raises; a raise is the \<open>Inl\<close> of the exception.
  Clock readings are floats in the source and real numbers here.
\<close>

record libs =
  set_str :: string
  remove :: "image \<Rightarrow> kwargs option \<Rightarrow> exn + image"
  Image_open :: "byte list \<Rightarrow> exn + image"
  Image_save :: "image \<Rightarrow> string \<Rightarrow> exn + byte list"
  clock :: "nat \<Rightarrow> real"
  http_str :: "nat \<Rightarrow> string \<Rightarrow> string"

definition str_exn :: "libs \<Rightarrow> exn \<Rightarrow> string" where
  "str_exn L e =
     (case e of ValueError m \<Rightarrow> m | Exception m \<Rightarrow> m | HTTPException c d \<Rightarrow> http_str L c d)"

text \<open>
  The observable effects of a request: the calls of \<^verbatim>\<open>rembg.remove\<close> made so far, with
  their arguments, and the number of clock readings taken so far.
\<close>

record world =
  calls :: "(image \<times> kwargs option) list"
  reads :: nat

definition time_time :: "libs \<Rightarrow> world \<Rightarrow> real \<times> world" where
  "time_time L w = (clock L (reads w), w\<lparr>reads := Suc (reads w)\<rparr>)"

definition call_remove :: "libs \<Rightarrow> image \<Rightarrow> kwargs option \<Rightarrow> world \<Rightarrow> (exn + image) \<times> world" where
  "call_remove L img kw w = (remove L img kw, w\<lparr>calls := calls w @ [(img, kw)]\<rparr>)"

subsection \<open>The background removal invoker\<close>

text \<open>
  \<^verbatim>\<open>raise ValueError(error_msg)\<close> carries the validator's message; \<^verbatim>\<open>str\<close> of a
  \<^verbatim>\<open>ValueError\<close> built from \<^verbatim>\<open>None\<close> would be the text \<^verbatim>\<open>None\<close>. The capital E with
  acute accent is the character of code 201 and the apostrophe that of code 39.
\<close>

definition remove_background ::
  "libs \<Rightarrow> image \<Rightarrow> bool \<Rightarrow> world \<Rightarrow> (exn + image \<times> real) \<times> world" where
  "remove_background L input_image postproc w =
     (case validate_image (set_str L) input_image of
        (is_valid, error_msg) \<Rightarrow>
          if \<not> is_valid then
            (Inl (ValueError (case error_msg of Some m \<Rightarrow> m | None \<Rightarrow> ''None'')), w)
          else
            (case time_time L w of
               (start_time, w1) \<Rightarrow>
                 (case (if postproc then
                          call_remove L input_image
                            (Some \<lparr>alpha_matting = True,
                                   alpha_matting_foreground_threshold = 240,
                                   alpha_matting_background_threshold = 10,
                                   alpha_matting_erode_size = 10\<rparr>) w1
                        else call_remove L input_image None w1) of
                    (Inr output_image, w2) \<Rightarrow>
                      (case time_time L w2 of
                         (end_time, w3) \<Rightarrow> (Inr (output_image, end_time - start_time), w3))
                  | (Inl e, w2) \<Rightarrow>
                      (Inl (Exception ([CHR 0xC9] @ ''chec du traitement d'' @ [CHR 0x27]
                                       @ ''image : '' @ str_exn L e)), w2))))"

subsection \<open>Python's \<^verbatim>\<open>base64\<close> module\<close>

text \<open>
  \<^verbatim>\<open>base64.b64encode\<close> and \<^verbatim>\<open>base64.b64decode\<close> belong to Python's standard library,
  not to the repository; they are written out here after CPython's
  \<^verbatim>\<open>binascii.b2a_base64\<close> and \<^verbatim>\<open>binascii.a2b_base64\<close>, because what the service accepts
  as base64 text is what \<^verbatim>\<open>b64decode(s)\<close> accepts with its default
  \<^verbatim>\<open>validate=False\<close>. A Python \<^verbatim>\<open>str\<close> is a \<open>string\<close> with one character for each
  code point; a character of code 128 or more stands for a non-ASCII code point.
\<close>

definition table_b2a_base64 :: string where
  "table_b2a_base64 =
     ''ABCDEFGHIJKLMNOPQRSTUVWXYZabcdefghijklmnopqrstuvwxyz0123456789+/''"

definition b2a :: "byte \<Rightarrow> char" where
  "b2a v = table_b2a_base64 ! unat v"

text \<open>The inverse table: the six-bit value of a character of the alphabet, if it is one.\<close>

definition table_a2b_base64 :: "char \<Rightarrow> byte option" where
  "table_a2b_base64 c = map_of (zip table_b2a_base64 (map of_nat [0..<64])) c"

fun b64encode :: "byte list \<Rightarrow> string" where
  "b64encode [] = []"
| "b64encode [a] =
     [b2a (drop_bit 2 a), b2a (push_bit 4 (a AND 3)), CHR ''='', CHR ''='']"
| "b64encode [a, b] =
     [b2a (drop_bit 2 a), b2a (push_bit 4 (a AND 3) OR drop_bit 4 b),
      b2a (push_bit 2 (b AND 15)), CHR ''='']"
| "b64encode (a # b # c # bs) =
     [b2a (drop_bit 2 a), b2a (push_bit 4 (a AND 3) OR drop_bit 4 b),
      b2a (push_bit 2 (b AND 15) OR drop_bit 6 c), b2a (c AND 63)] @ b64encode bs"

text \<open>
  The loop of \<^verbatim>\<open>a2b_base64\<close> in its non-strict mode, on the characters left to read,
  with \<^verbatim>\<open>quad_pos\<close>, \<^verbatim>\<open>leftchar\<close>, \<^verbatim>\<open>pads\<close> and the bytes written so far. A pad
  character ends the input once it completes a quad and is skipped otherwise; a character
  outside the alphabet is skipped; input that ends inside a quad is an error.
\<close>

fun a2b_base64 :: "string \<Rightarrow> nat \<Rightarrow> byte \<Rightarrow> nat \<Rightarrow> byte list \<Rightarrow> exn + byte list" where
  "a2b_base64 [] quad_pos leftchar pads out =
     (if quad_pos \<noteq> 0 then
        (if quad_pos = 1 then
           Inl (ValueError (''Invalid base64-encoded string: number of data characters (''
                  @ str_nat (length out div 3 * 4 + 1)
                  @ '') cannot be 1 more than a multiple of 4''))
         else Inl (ValueError ''Incorrect padding''))
      else Inr out)"
| "a2b_base64 (this_ch # rest) quad_pos leftchar pads out =
     (if this_ch = CHR ''='' then
        (if quad_pos \<ge> 2 then
           (if quad_pos + (pads + 1) \<ge> 4 then Inr out
            else a2b_base64 rest quad_pos leftchar (pads + 1) out)
         else a2b_base64 rest quad_pos leftchar pads out)
      else
        (case table_a2b_base64 this_ch of
           None \<Rightarrow> a2b_base64 rest quad_pos leftchar pads out
         | Some v \<Rightarrow>
             (if quad_pos = 0 then a2b_base64 rest 1 v 0 out
              else if quad_pos = 1 then
                a2b_base64 rest 2 (v AND 15) 0 (out @ [push_bit 2 leftchar OR drop_bit 4 v])
              else if quad_pos = 2 then
                a2b_base64 rest 3 (v AND 3) 0 (out @ [push_bit 4 leftchar OR drop_bit 2 v])
              else a2b_base64 rest 0 0 0 (out @ [push_bit 6 leftchar OR v]))))"

text \<open>
  \<^verbatim>\<open>b64decode\<close> of a \<^verbatim>\<open>str\<close> first encodes it as ASCII, which fails on any other
  character, and then runs the loop. \<^verbatim>\<open>binascii.Error\<close> is a subclass of
  \<^verbatim>\<open>ValueError\<close>.
\<close>

definition b64decode :: "string \<Rightarrow> exn + byte list" where
  "b64decode s =
     (if list_ex (\<lambda>c. of_char c \<ge> (128::nat)) s then
        Inl (ValueError ''string argument should contain only ASCII characters'')
      else a2b_base64 s 0 0 0 [])"

subsection \<open>The encoding and decoding helpers\<close>

definition image_to_base64 :: "libs \<Rightarrow> image \<Rightarrow> string \<Rightarrow> exn + string" where
  "image_to_base64 L img fmt =
     (case Image_save L img fmt of
        Inl e \<Rightarrow> Inl e
      | Inr image_bytes \<Rightarrow> Inr (b64encode image_bytes))"

definition base64_to_image :: "libs \<Rightarrow> string \<Rightarrow> exn + image" where
  "base64_to_image L base64_string =
     (case b64decode base64_string of
        Inl e \<Rightarrow> Inl (ValueError (''Impossible de convertir le base64 en image : '' @ str_exn L e))
      | Inr image_bytes \<Rightarrow>
          (case Image_open L image_bytes of
             Inl e \<Rightarrow>
               Inl (ValueError (''Impossible de convertir le base64 en image : '' @ str_exn L e))
           | Inr img \<Rightarrow> Inr img))"

definition image_to_bytes :: "libs \<Rightarrow> image \<Rightarrow> string \<Rightarrow> exn + byte list" where
  "image_to_bytes L img fmt = Image_save L img fmt"

subsection \<open>The request schema and the route for base64 requests\<close>

datatype OutputFormat = BASE64 | BINARY | URL

record ImageProcessRequest =
  image_base64 :: string
  output_format :: OutputFormat
  post_process :: bool

text \<open>The field validator of \<^verbatim>\<open>image_base64\<close> in \<^verbatim>\<open>app/models/schemas.py\<close>.\<close>

definition validate_base64 :: "string \<Rightarrow> exn + string" where
  "validate_base64 v =
     (case b64decode v of
        Inl e \<Rightarrow> Inl (ValueError ''Le base64 fourni est invalide'')
      | Inr decoded \<Rightarrow> Inr v)"

record ImageProcessResponse =
  success :: bool
  response_output_format :: OutputFormat
  image_data :: "string option"
  processing_time :: real
  original_size :: "int \<times> int"
  message :: "string option"

text \<open>
  Python's \<^verbatim>\<open>round(x, 3)\<close>, on real numbers: the nearest multiple of one thousandth,
  a tie going to the even one.
\<close>

definition round3 :: "real \<Rightarrow> real" where
  "round3 x =
     (let y = x * 1000; f = \<lfloor>y\<rfloor>; d = y - of_int f
      in of_int (if d < 1 / 2 then f else if 1 / 2 < d then f + 1
                 else if even f then f else f + 1) / 1000)"

text \<open>The detail of the \<^verbatim>\<open>HTTPException\<close> raised for the output format \<^verbatim>\<open>url\<close>.\<close>

definition detail_url :: string where
  "detail_url =
     ''Le format '' @ [CHR 0x27] @ ''url'' @ [CHR 0x27] @ '' n'' @ [CHR 0x27]
     @ ''est pas encore impl'' @ [CHR 0xE9] @ ''ment'' @ [CHR 0xE9] @ ''. Utilisez ''
     @ [CHR 0x27] @ ''base64'' @ [CHR 0x27] @ '' ou '' @ [CHR 0x27] @ ''binary''
     @ [CHR 0x27] @ ''.''"

text \<open>
  The message of a successful response; the letter e with grave accent is the character of
  code 232.
\<close>

definition message_ok :: string where
  "message_ok = ''Image trait'' @ [CHR 0xE9] @ ''e avec succ'' @ [CHR 0xE8] @ ''s''"

text \<open>
  The body of the \<^verbatim>\<open>try\<close> statement of \<^verbatim>\<open>remove_background_base64\<close>: the first raise
  ends it.
\<close>

definition remove_background_base64_try ::
  "libs \<Rightarrow> ImageProcessRequest \<Rightarrow> world \<Rightarrow> (exn + ImageProcessResponse) \<times> world" where
  "remove_background_base64_try L request w =
     (case base64_to_image L (image_base64 request) of
        Inl e \<Rightarrow> (Inl e, w)
      | Inr input_image \<Rightarrow>
          (case remove_background L input_image (post_process request) w of
             (Inl e, w') \<Rightarrow> (Inl e, w')
           | (Inr (output_image, elapsed), w') \<Rightarrow>
               (case (if output_format request = BASE64 then
                        image_to_base64 L output_image ''PNG''
                      else if output_format request = URL then
                        Inl (HTTPException 501 detail_url)
                      else image_to_base64 L output_image ''PNG'') of
                  Inl e \<Rightarrow> (Inl e, w')
                | Inr data \<Rightarrow>
                    (Inr \<lparr>success = True,
                          response_output_format = output_format request,
                          image_data = Some data,
                          processing_time = round3 elapsed,
                          original_size = size_wh input_image,
                          message = Some message_ok\<rparr>, w'))))"

text \<open>
  The two \<^verbatim>\<open>except\<close> clauses, in the order of the source: a \<^verbatim>\<open>ValueError\<close> becomes the
  status 400 with its message; every other exception raised in the body, whatever its class,
  becomes the status 500.
\<close>

definition remove_background_base64 ::
  "libs \<Rightarrow> ImageProcessRequest \<Rightarrow> world \<Rightarrow> (exn + ImageProcessResponse) \<times> world" where
  "remove_background_base64 L request w =
     (case remove_background_base64_try L request w of
        (Inr response, w') \<Rightarrow> (Inr response, w')
      | (Inl (ValueError m), w') \<Rightarrow> (Inl (HTTPException 400 m), w')
      | (Inl e, w') \<Rightarrow>
          (Inl (HTTPException 500
                  (''Erreur lors du traitement de l'' @ [CHR 0x27] @ ''image : '' @ str_exn L e)),
           w'))"

text \<open>
  Building an \<^verbatim>\<open>ImageProcessRequest\<close> runs the field validator of \<^verbatim>\<open>image_base64\<close>; its
  \<^verbatim>\<open>ValueError\<close> makes the construction fail, and no request exists.
\<close>

definition ImageProcessRequest_new ::
  "string \<Rightarrow> OutputFormat \<Rightarrow> bool \<Rightarrow> exn + ImageProcessRequest" where
  "ImageProcessRequest_new v fmt pp =
     (case validate_base64 v of
        Inl e \<Rightarrow> Inl e
      | Inr v' \<Rightarrow> Inr \<lparr>image_base64 = v', output_format = fmt, post_process = pp\<rparr>)"

text \<open>
  A POST to \<^verbatim>\<open>/api/v1/remove-background\<close>: FastAPI builds the request from the body and
  calls the route with it. When the construction fails the route is not called; the
  validation error goes to FastAPI, which answers it with the status 422.
\<close>

definition post_remove_background ::
  "libs \<Rightarrow> string \<Rightarrow> OutputFormat \<Rightarrow> bool \<Rightarrow> world
     \<Rightarrow> (exn + ImageProcessResponse) \<times> world" where
  "post_remove_background L v fmt pp w =
     (case ImageProcessRequest_new v fmt pp of
        Inl e \<Rightarrow> (Inl e, w)
      | Inr request \<Rightarrow> remove_background_base64 L request w)"

text \<open>Python's \<^verbatim>\<open>needle in text\<close> on strings.\<close>

fun contains :: "string \<Rightarrow> string \<Rightarrow> bool" where
  "contains needle [] = (needle = [])"
| "contains needle (c # cs) = (take (length needle) (c # cs) = needle \<or> contains needle cs)"

subsection \<open>A stand-in for the libraries\<close>

text \<open>
  Concrete inputs for evaluating the service. \<open>png_10x10\<close> is a complete PNG file of a
  black 10 by 10 greyscale image (signature, IHDR, IDAT, IEND), and \<open>image_10x10\<close> is
  what PIL reports after opening it. \<open>test_libs\<close> stands in for the libraries: a decoder
  that knows this one file, an encoder that writes it, a model that returns its input, a
  clock that advances by a quarter of a second at each reading, and Starlette's
  \<^verbatim>\<open>str\<close> of an \<^verbatim>\<open>HTTPException\<close> (status code, colon, detail).
\<close>

definition png_10x10 :: "byte list" where
  "png_10x10 =
    [137, 80, 78, 71, 13, 10, 26, 10, 0, 0, 0, 13, 73, 72, 68, 82, 0, 0, 0, 10, 0, 0, 0,
     10, 8, 0, 0, 0, 0, 168, 89, 144, 97, 0, 0, 0, 12, 73, 68, 65, 84, 120, 218, 99, 96,
     160, 39, 0, 0, 0, 110, 0, 1, 118, 160, 169, 207, 0, 0, 0, 0, 73, 69, 78, 68, 174, 66,
     96, 130]"

definition image_10x10 :: image where
  "image_10x10 = \<lparr>format = Some ''PNG'', size_wh = (10, 10), pixels = replicate 100 0\<rparr>"

definition test_libs :: libs where
  "test_libs =
     \<lparr>set_str = ''{'' @ [CHR 0x27] @ ''PNG'' @ [CHR 0x27] @ '', '' @ [CHR 0x27] @ ''JPEG''
                 @ [CHR 0x27] @ '', '' @ [CHR 0x27] @ ''JPG'' @ [CHR 0x27] @ '', ''
                 @ [CHR 0x27] @ ''WEBP'' @ [CHR 0x27] @ '', '' @ [CHR 0x27] @ ''BMP''
                 @ [CHR 0x27] @ ''}'',
      remove = (\<lambda>img kw. Inr img),
      Image_open = (\<lambda>bs. if bs = png_10x10 then Inr image_10x10
                          else Inl (Exception ''cannot identify image file'')),
      Image_save = (\<lambda>img fmt. Inr png_10x10),
      clock = (\<lambda>n. real n / 4),
      http_str = (\<lambda>c d. str_nat c @ '': '' @ d)\<rparr>"

definition world0 :: world where
  "world0 = \<lparr>calls = [], reads = 0\<rparr>"

subsection \<open>Images used as concrete inputs\<close>

definition image_4097 :: image where
  "image_4097 = \<lparr>format = Some ''PNG'', size_wh = (4097, 4097), pixels = []\<rparr>"

definition image_9x2000000 :: image where
  "image_9x2000000 = \<lparr>format = Some ''PNG'', size_wh = (9, 2000000), pixels = []\<rparr>"

definition image_9x4096 :: image where
  "image_9x4096 = \<lparr>format = None, size_wh = (9, 4096), pixels = []\<rparr>"

definition image_5x5_gif :: image where
  "image_5x5_gif = \<lparr>format = Some ''GIF'', size_wh = (5, 5), pixels = []\<rparr>"

definition image_5x5 :: image where
  "image_5x5 = \<lparr>format = Some ''PNG'', size_wh = (5, 5), pixels = []\<rparr>"

text \<open>The format tag is absent or one of \<open>SUPPORTED_FORMATS\<close>.\<close>

definition supported :: "image \<Rightarrow> bool" where
  "supported img \<longleftrightarrow>
     (case format img of None \<Rightarrow> True | Some f \<Rightarrow> f \<in> SUPPORTED_FORMATS)"

text \<open>
  The base64 text of \<open>png_10x10\<close>, the same text with an exclamation mark after its
  twentieth character, and requests carrying them.
\<close>

definition png_10x10_base64 :: string where
  "png_10x10_base64 =
     ''iVBORw0KGgoAAAANSUhE'' @
     ''UgAAAAoAAAAKCAAAAACoWZBhAAAADElEQVR42mNgoCcAAABuAAF2oKnPAAAAAElFTkSuQmCC''"

definition png_10x10_base64_bang :: string where
  "png_10x10_base64_bang =
     ''iVBORw0KGgoAAAANSUhE'' @ CHR ''!'' #
     ''UgAAAAoAAAAKCAAAAACoWZBhAAAADElEQVR42mNgoCcAAABuAAF2oKnPAAAAAElFTkSuQmCC''"

definition request_base64 :: ImageProcessRequest where
  "request_base64 =
     \<lparr>image_base64 = png_10x10_base64, output_format = BASE64, post_process = False\<rparr>"

definition request_binary :: ImageProcessRequest where
  "request_binary =
     \<lparr>image_base64 = png_10x10_base64, output_format = BINARY, post_process = False\<rparr>"

definition request_url :: ImageProcessRequest where
  "request_url =
     \<lparr>image_base64 = png_10x10_base64, output_format = URL, post_process = False\<rparr>"

text \<open>A text with a non-ASCII character, the letter e with acute accent.\<close>

definition text_accent :: string where
  "text_accent = ''iVBO'' @ [CHR 0xE9] @ ''Rw==''"

definition request_bang :: ImageProcessRequest where
  "request_bang =
     \<lparr>image_base64 = png_10x10_base64_bang, output_format = BASE64, post_process = False\<rparr>"



text \<open>The keyword arguments that \<open>remove_background\<close> passes for a value of \<open>post_process\<close>.\<close>

definition matting :: "bool \<Rightarrow> kwargs option" where
  "matting pp = (if pp then Some \<lparr>alpha_matting = True,
                                   alpha_matting_foreground_threshold = 240,
                                   alpha_matting_background_threshold = 10,
                                   alpha_matting_erode_size = 10\<rparr> else None)"

section \<open>Properties\<close>

text \<open>
  C1. Every image whose format tag is absent or one of PNG, JPEG, JPG, WEBP, BMP, whose
  width times height is at most 16,777,216 and whose width and height are both at least
  10 passes validation, with no error message.
\<close>

theorem validate_image_accepts:
  assumes "format img = None \<or> format img \<in> Some ` {''PNG'', ''JPEG'', ''JPG'', ''WEBP'', ''BMP''}"
    and "fst (size_wh img) * snd (size_wh img) \<le> 16777216"
    and "10 \<le> fst (size_wh img)" and "10 \<le> snd (size_wh img)"
  shows "validate_image fmts img = (True, None)"
  using assms
  by (auto simp: validate_image_def SUPPORTED_FORMATS_def MAX_IMAGE_SIZE_def split: prod.splits)

theorem validate_image_accepts_witness:
  "validate_image ''{}'' \<lparr>format = Some ''PNG'', size_wh = (4096, 4096), pixels = []\<rparr> = (True, None)"
  using validate_image_accepts [of "\<lparr>format = Some ''PNG'', size_wh = (4096, 4096), pixels = []\<rparr>" "''{}''"]
  by simp

subsection \<open>The shape of the validator's result\<close>

lemma validate_image_cases:
  "validate_image fmts img = (True, None) \<or>
   (\<exists>m. validate_image fmts img = (False, Some m))"
  by (simp add: validate_image_def split: prod.splits)

text \<open>
  C10. For every image the validator returns a result, and the result is valid exactly
  when its message is \<open>None\<close>: a failure carries one message, a success none.
\<close>

theorem validate_image_well_formed:
  "fst (validate_image fmts img) \<longleftrightarrow> snd (validate_image fmts img) = None"
  using validate_image_cases [of fmts img] by auto

theorem validate_image_well_formed_witness:
  "fst (validate_image (set_str test_libs) image_10x10)
   \<and> snd (validate_image (set_str test_libs) image_10x10) = None"
  using validate_image_well_formed [of "set_str test_libs" image_10x10]
  by (simp add: validate_image_def image_10x10_def SUPPORTED_FORMATS_def MAX_IMAGE_SIZE_def)

subsection \<open>The validator on images with a supported format\<close>

lemma str_MAX: "str_int MAX_IMAGE_SIZE = ''16777216''"
  by (simp add: str_int_def MAX_IMAGE_SIZE_def str_nat.simps)

lemma contains_append: "contains n (a @ n @ b)"
proof (induction a)
  case Nil
  show ?case
  proof (cases "n @ b")
    case Nil
    then show ?thesis by simp
  next
    case (Cons x xs)
    have "take (length n) (n @ b) = n" by simp
    then show ?thesis unfolding append_Nil Cons by simp
  qed
next
  case (Cons x a)
  then show ?case by simp
qed

lemma validate_image_supported:
  assumes "supported img"
  shows "validate_image fmts img =
     (if fst (size_wh img) * snd (size_wh img) > 16777216 then
        (False, Some (''Image trop grande ('' @ str_int (fst (size_wh img)) @ ''x''
                      @ str_int (snd (size_wh img)) @ ''). Maximum : 16777216 pixels''))
      else if fst (size_wh img) < 10 \<or> snd (size_wh img) < 10 then
        (False, Some ''Image trop petite (minimum 10x10 pixels)'')
      else (True, None))"
proof -
  have f: "\<not> (format img \<noteq> None \<and> the (format img) \<notin> SUPPORTED_FORMATS)"
    using assms by (cases "format img") (simp_all add: supported_def)
  have m: "MAX_IMAGE_SIZE = 16777216" by (simp add: MAX_IMAGE_SIZE_def)
  obtain w h where wh: "size_wh img = (w, h)" by (cases "size_wh img")
  show ?thesis
    unfolding validate_image_def if_not_P [OF f] str_MAX wh
    by (simp only: m prod.case fst_conv snd_conv append_Cons append_Nil)
qed

lemma supported_4097: "supported image_4097"
  by (simp add: supported_def image_4097_def SUPPORTED_FORMATS_def)

lemma supported_9x: "supported image_9x2000000"
  by (simp add: supported_def image_9x2000000_def SUPPORTED_FORMATS_def)

lemma supported_9x4096: "supported image_9x4096"
  by (simp add: supported_def image_9x4096_def)


text \<open>
  C5, as amended. An image with an absent or supported format tag, an area of at most
  16,777,216 pixels and a width or a height below 10 fails validation with the
  message "Image trop petite (minimum 10x10 pixels)". (When the other dimension makes the
  area exceed the limit, the area check comes first and the reason is "too large".)
\<close>

theorem validate_image_too_small:
  assumes "supported img"
    and "fst (size_wh img) * snd (size_wh img) \<le> 16777216"
    and "fst (size_wh img) < 10 \<or> snd (size_wh img) < 10"
  shows "validate_image fmts img = (False, Some ''Image trop petite (minimum 10x10 pixels)'')"
  unfolding validate_image_supported [OF assms(1)] using assms(2,3) by simp

theorem validate_image_too_small_witness:
  "validate_image (set_str test_libs) image_9x4096
     = (False, Some ''Image trop petite (minimum 10x10 pixels)'')"
  by (rule validate_image_too_small) (simp_all add: supported_9x4096, simp_all add: image_9x4096_def)

theorem validate_image_too_small_counterexample:
  "fst (size_wh image_9x2000000) = 9 \<and> supported image_9x2000000 \<and>
   validate_image (set_str test_libs) image_9x2000000
     = (False, Some ''Image trop grande (9x2000000). Maximum : 16777216 pixels'') \<and>
   validate_image (set_str test_libs) image_9x2000000
     \<noteq> (False, Some ''Image trop petite (minimum 10x10 pixels)'')"
proof -
  have s: "size_wh image_9x2000000 = (9, 2000000)" by (simp add: image_9x2000000_def)
  have a: "str_int 9 = ''9''" by (simp add: str_int_def str_nat.simps)
  have b: "str_int 2000000 = ''2000000''" by (simp add: str_int_def str_nat.simps)
  show ?thesis
    unfolding validate_image_supported [OF supported_9x] s fst_conv snd_conv a b
    using supported_9x by simp
qed


text \<open>
  C8, as amended. An image with an absent or supported format tag whose area exceeds
  16,777,216 pixels fails validation with the message
  "Image trop grande (WxH). Maximum : 16777216 pixels", which cites the width and the
  height of the image, not their product, and the limit.
\<close>

theorem validate_image_too_large:
  assumes "supported img"
    and "fst (size_wh img) * snd (size_wh img) > 16777216"
  shows "\<exists>m. validate_image fmts img = (False, Some m)
     \<and> m = ''Image trop grande ('' @ str_int (fst (size_wh img)) @ ''x''
            @ str_int (snd (size_wh img)) @ ''). Maximum : 16777216 pixels''
     \<and> contains (str_int (fst (size_wh img)) @ ''x'' @ str_int (snd (size_wh img))) m
     \<and> contains ''16777216'' m"
proof -
  let ?w = "fst (size_wh img)" and ?h = "snd (size_wh img)"
  let ?m = "''Image trop grande ('' @ str_int ?w @ ''x'' @ str_int ?h @ ''). Maximum : 16777216 pixels''"
  have v: "validate_image fmts img = (False, Some ?m)"
    unfolding validate_image_supported [OF assms(1)] using assms(2) by simp
  have c2: "contains (str_int ?w @ ''x'' @ str_int ?h) ?m"
    using contains_append [of "str_int ?w @ ''x'' @ str_int ?h" "''Image trop grande (''" "''). Maximum : 16777216 pixels''"]
    by (simp only: append_assoc)
  have c3: "contains ''16777216'' ?m"
    using contains_append [of "''16777216''" "''Image trop grande ('' @ str_int ?w @ ''x'' @ str_int ?h @ ''). Maximum : ''" "'' pixels''"]
    by (simp only: append_assoc append_Cons append_Nil)
  show ?thesis using v c2 c3 by blast
qed

theorem validate_image_too_large_witness:
  "\<exists>m. validate_image (set_str test_libs) image_4097 = (False, Some m)
     \<and> m = ''Image trop grande ('' @ str_int (fst (size_wh image_4097)) @ ''x''
            @ str_int (snd (size_wh image_4097)) @ ''). Maximum : 16777216 pixels''
     \<and> contains (str_int (fst (size_wh image_4097)) @ ''x'' @ str_int (snd (size_wh image_4097))) m
     \<and> contains ''16777216'' m"
  by (rule validate_image_too_large) (simp_all add: supported_4097, simp add: image_4097_def)

theorem validate_image_too_large_counterexample:
  "validate_image (set_str test_libs) image_4097
     = (False, Some ''Image trop grande (4097x4097). Maximum : 16777216 pixels'')
   \<and> str_int (4097 * 4097) = ''16785409''
   \<and> \<not> contains ''16785409'' ''Image trop grande (4097x4097). Maximum : 16777216 pixels''"
proof -
  have s: "size_wh image_4097 = (4097, 4097)" by (simp add: image_4097_def)
  have a: "str_int 4097 = ''4097''" by (simp add: str_int_def str_nat.simps)
  have b: "str_int (4097 * 4097) = ''16785409''" by (simp add: str_int_def str_nat.simps)
  have c: "\<not> contains ''16785409'' ''Image trop grande (4097x4097). Maximum : 16777216 pixels''"
    by simp
  have v: "validate_image (set_str test_libs) image_4097
     = (False, Some ''Image trop grande (4097x4097). Maximum : 16777216 pixels'')"
    unfolding validate_image_supported [OF supported_4097] s fst_conv snd_conv a by simp
  show ?thesis using v b c by blast
qed

subsection \<open>The background removal invoker\<close>

lemma remove_background_invalid:
  assumes "validate_image (set_str L) img = (False, Some m)"
  shows "remove_background L img pp w = (Inl (ValueError m), w)"
  by (simp add: remove_background_def assms)

lemma remove_background_valid:
  assumes "validate_image (set_str L) img = (True, None)"
  shows "remove_background L img pp w =
     (let kw = (if pp then Some \<lparr>alpha_matting = True,
                                   alpha_matting_foreground_threshold = 240,
                                   alpha_matting_background_threshold = 10,
                                   alpha_matting_erode_size = 10\<rparr> else None);
          w2 = w\<lparr>calls := calls w @ [(img, kw)], reads := Suc (reads w)\<rparr>
      in case remove L img kw of
           Inr out \<Rightarrow> (Inr (out, clock L (Suc (reads w)) - clock L (reads w)),
                       w2\<lparr>reads := Suc (Suc (reads w))\<rparr>)
         | Inl e \<Rightarrow> (Inl (Exception ([CHR 0xC9] @ ''chec du traitement d'' @ [CHR 0x27]
                                       @ ''image : '' @ str_exn L e)), w2))"
  by (simp add: remove_background_def assms time_time_def call_remove_def Let_def split: sum.splits)

lemma remove_background_ok:
  assumes "validate_image (set_str L) img = (True, None)" and "remove L img (matting pp) = Inr out"
  shows "remove_background L img pp w =
     (Inr (out, clock L (Suc (reads w)) - clock L (reads w)),
      w\<lparr>calls := calls w @ [(img, matting pp)], reads := Suc (Suc (reads w))\<rparr>)"
  using assms(2)
  by (simp add: remove_background_valid [OF assms(1)] Let_def matting_def split: if_splits)

lemma remove_background_Inr:
  assumes "remove_background L img pp w = (Inr (out, t), w')"
  shows "validate_image (set_str L) img = (True, None) \<and> remove L img (matting pp) = Inr out
     \<and> t = clock L (Suc (reads w)) - clock L (reads w)"
proof -
  have v: "validate_image (set_str L) img = (True, None)"
  proof (rule ccontr)
    assume "validate_image (set_str L) img \<noteq> (True, None)"
    then obtain m where "validate_image (set_str L) img = (False, Some m)"
      using validate_image_cases [of "set_str L" img] by auto
    then show False using assms by (simp add: remove_background_invalid)
  qed
  have "remove L img (matting pp) = Inr out
     \<and> t = clock L (Suc (reads w)) - clock L (reads w)"
    using assms unfolding remove_background_valid [OF v] Let_def matting_def
    by (auto split: sum.splits if_splits)
  then show ?thesis using v by simp
qed

lemma supported_5x5: "supported image_5x5"
  by (simp add: supported_def image_5x5_def SUPPORTED_FORMATS_def)

lemma validate_10x10: "validate_image fmts image_10x10 = (True, None)"
proof -
  have "supported image_10x10"
    by (simp add: supported_def image_10x10_def SUPPORTED_FORMATS_def)
  then show ?thesis by (simp add: validate_image_supported) (simp add: image_10x10_def)
qed

text \<open>
  C2, as amended. For every image that fails validation, \<open>remove_background\<close> raises a
  \<^verbatim>\<open>ValueError\<close> carrying exactly the validator's message and leaves the world as it
  was: the model is not invoked and the clock is not read. In particular a 5 by 5 image
  whose format tag is absent or supported yields the "too small" message. (A 5 by 5 image
  with an unsupported format tag yields the message of the format check, which comes
  first.)
\<close>

theorem remove_background_rejects:
  "(\<not> fst (validate_image (set_str L) img) \<longrightarrow>
      (\<exists>m. snd (validate_image (set_str L) img) = Some m \<and>
           remove_background L img pp w = (Inl (ValueError m), w)))
   \<and> (supported img \<and> size_wh img = (5, 5) \<longrightarrow>
      remove_background L img pp w
        = (Inl (ValueError ''Image trop petite (minimum 10x10 pixels)''), w))"
proof (intro conjI impI)
  assume "\<not> fst (validate_image (set_str L) img)"
  then obtain m where m: "validate_image (set_str L) img = (False, Some m)"
    using validate_image_cases [of "set_str L" img] by auto
  show "\<exists>m. snd (validate_image (set_str L) img) = Some m \<and>
           remove_background L img pp w = (Inl (ValueError m), w)"
    using m remove_background_invalid [OF m] by simp
next
  assume a: "supported img \<and> size_wh img = (5, 5)"
  then have "validate_image (set_str L) img = (False, Some ''Image trop petite (minimum 10x10 pixels)'')"
    by (simp add: validate_image_supported)
  then show "remove_background L img pp w
        = (Inl (ValueError ''Image trop petite (minimum 10x10 pixels)''), w)"
    by (rule remove_background_invalid)
qed

theorem remove_background_rejects_witness:
  "\<not> fst (validate_image (set_str test_libs) image_5x5)
   \<and> supported image_5x5 \<and> size_wh image_5x5 = (5, 5)
   \<and> remove_background test_libs image_5x5 False world0
        = (Inl (ValueError ''Image trop petite (minimum 10x10 pixels)''), world0)
   \<and> calls (snd (remove_background test_libs image_5x5 False world0)) = []"
proof -
  have s: "supported image_5x5 \<and> size_wh image_5x5 = (5, 5)"
    by (simp add: supported_5x5) (simp add: image_5x5_def)
  have n: "\<not> fst (validate_image (set_str test_libs) image_5x5)"
    using s by (simp add: validate_image_supported)
  have r: "remove_background test_libs image_5x5 False world0
        = (Inl (ValueError ''Image trop petite (minimum 10x10 pixels)''), world0)"
    using remove_background_rejects [of test_libs image_5x5 False world0] s n by blast
  show ?thesis using s n r by (simp add: world0_def)
qed

theorem remove_background_rejects_counterexample:
  "size_wh image_5x5_gif = (5, 5)
   \<and> remove_background test_libs image_5x5_gif False world0
      = (Inl (ValueError (''Format GIF non support'' @ [CHR 0xE9] @ ''. Formats accept''
                          @ [CHR 0xE9] @ ''s : '' @ set_str test_libs)), world0)
   \<and> remove_background test_libs image_5x5_gif False world0
      \<noteq> (Inl (ValueError ''Image trop petite (minimum 10x10 pixels)''), world0)"
proof -
  have v: "validate_image (set_str test_libs) image_5x5_gif
      = (False, Some (''Format GIF non support'' @ [CHR 0xE9] @ ''. Formats accept''
                          @ [CHR 0xE9] @ ''s : '' @ set_str test_libs))"
    by (simp add: validate_image_def image_5x5_gif_def SUPPORTED_FORMATS_def)
  show ?thesis
    unfolding remove_background_invalid [OF v] by (simp add: image_5x5_gif_def)
qed

text \<open>
  C3. For every valid image, \<open>remove_background\<close> adds exactly one call of the model to
  the calls made so far: without keyword arguments when \<open>post_process\<close> is false, and
  with alpha matting enabled, foreground threshold 240, background threshold 10 and
  erosion size 10 when it is true.
\<close>

theorem remove_background_calls_model_once:
  assumes "fst (validate_image (set_str L) img)"
  shows "calls (snd (remove_background L img False w)) = calls w @ [(img, None)]
    \<and> calls (snd (remove_background L img True w))
        = calls w @ [(img, Some \<lparr>alpha_matting = True,
                                  alpha_matting_foreground_threshold = 240,
                                  alpha_matting_background_threshold = 10,
                                  alpha_matting_erode_size = 10\<rparr>)]"
proof -
  have v: "validate_image (set_str L) img = (True, None)"
    using assms validate_image_cases [of "set_str L" img] by auto
  show ?thesis
    by (simp add: remove_background_valid [OF v] Let_def split: sum.splits)
qed

theorem remove_background_calls_model_once_witness:
  "fst (validate_image (set_str test_libs) image_10x10)
   \<and> calls (snd (remove_background test_libs image_10x10 False world0)) = [(image_10x10, None)]
   \<and> calls (snd (remove_background test_libs image_10x10 True world0))
        = [(image_10x10, Some \<lparr>alpha_matting = True,
                                  alpha_matting_foreground_threshold = 240,
                                  alpha_matting_background_threshold = 10,
                                  alpha_matting_erode_size = 10\<rparr>)]"
proof -
  have v: "fst (validate_image (set_str test_libs) image_10x10)"
    by (simp add: validate_10x10)
  show ?thesis
    using v remove_background_calls_model_once [OF v, of world0] by (simp add: world0_def)
qed

subsection \<open>Base64: decoding inverts encoding\<close>

lemma distinct_table: "distinct table_b2a_base64"
  by (simp add: table_b2a_base64_def)

lemma length_table: "length table_b2a_base64 = 64"
  by (simp add: table_b2a_base64_def)

lemma a2b_b2a:
  assumes "v < 64"
  shows "table_a2b_base64 (b2a v) = Some v"
proof -
  let ?sextets = "map of_nat [0..<64] :: byte list"
  have n: "unat v < 64" using assms by (simp add: word_less_nat_alt)
  have "map_of (zip table_b2a_base64 ?sextets) (table_b2a_base64 ! unat v)
          = Some (?sextets ! unat v)"
    by (rule map_of_zip_nth) (use n in \<open>simp_all add: distinct_table length_table\<close>)
  also have "?sextets ! unat v = v" using n by simp
  finally show ?thesis by (simp add: table_a2b_base64_def b2a_def)
qed

lemma b2a_not_pad:
  assumes "v < 64"
  shows "b2a v \<noteq> CHR ''=''"
proof -
  have n: "unat v < 64" using assms by (simp add: word_less_nat_alt)
  have "CHR ''='' \<notin> set table_b2a_base64" by (simp add: table_b2a_base64_def)
  moreover have "b2a v \<in> set table_b2a_base64" using n by (simp add: b2a_def length_table)
  ultimately show ?thesis by metis
qed

lemma b2a_ascii:
  assumes "v < 64"
  shows "(of_char (b2a v) :: nat) < 128"
proof -
  have n: "unat v < 64" using assms by (simp add: word_less_nat_alt)
  have "\<forall>c \<in> set table_b2a_base64. (of_char c :: nat) < 128"
    by (simp add: table_b2a_base64_def)
  moreover have "b2a v \<in> set table_b2a_base64" using n by (simp add: b2a_def length_table)
  ultimately show ?thesis by blast
qed

lemma three_mask: "(3::byte) = mask 2"
  and fifteen_mask: "(15::byte) = mask 4"
  and sixtythree_mask: "(63::byte) = mask 6"
  by (simp_all add: mask_eq_exp_minus_1)

lemma bit_index_cases:
  fixes n :: nat
  assumes "n < 8"
  obtains (b0) "n = 0" | (b1) "n = 1" | (b2) "n = 2" | (b3) "n = 3"
    | (b4) "n = 4" | (b5) "n = 5" | (b6) "n = 6" | (b7) "n = 7"
  using assms by arith

lemma sextetI:
  fixes v :: byte
  assumes "\<And>n. 6 \<le> n \<Longrightarrow> \<not> bit v n"
  shows "v < 64"
proof -
  have "v = v AND mask 6"
    by (rule bit_word_eqI) (use assms in \<open>auto simp: bit_simps not_le [symmetric]\<close>)
  moreover have "v AND mask 6 < 2 ^ 6" by (rule and_mask_less') simp
  ultimately show ?thesis by simp
qed

lemma sextet_first: "drop_bit 2 (a::byte) < 64"
  by (rule sextetI) (auto simp: bit_simps dest: bit_imp_le_length)

lemma sextet_second: "push_bit 4 ((a::byte) AND 3) OR drop_bit 4 (b::byte) < 64"
  unfolding three_mask
  by (rule sextetI) (auto simp: bit_simps dest: bit_imp_le_length)

lemma sextet_third: "push_bit 2 ((b::byte) AND 15) OR drop_bit 6 (c::byte) < 64"
  unfolding fifteen_mask
  by (rule sextetI) (auto simp: bit_simps dest: bit_imp_le_length)

lemma sextet_fourth: "(c::byte) AND 63 < 64"
  unfolding sixtythree_mask
  by (rule sextetI) (auto simp: bit_simps dest: bit_imp_le_length)

lemma sextet_second_pad: "push_bit 4 ((a::byte) AND 3) < 64"
  unfolding three_mask
  by (rule sextetI) (auto simp: bit_simps dest: bit_imp_le_length)

lemma sextet_third_pad: "push_bit 2 ((a::byte) AND 15) < 64"
  unfolding fifteen_mask
  by (rule sextetI) (auto simp: bit_simps dest: bit_imp_le_length)

lemma join_byte1:
  "push_bit 2 (drop_bit 2 a) OR drop_bit 4 (push_bit 4 (a AND 3) OR drop_bit 4 b) = (a::byte)"
  unfolding three_mask
  by (rule bit_word_eqI, simp, (erule bit_index_cases; simp add: bit_simps))

lemma join_byte2:
  "push_bit 4 ((push_bit 4 (a AND 3) OR drop_bit 4 b) AND 15)
     OR drop_bit 2 (push_bit 2 (b AND 15) OR drop_bit 6 c) = (b::byte)"
  unfolding three_mask fifteen_mask
  by (rule bit_word_eqI, simp, (erule bit_index_cases; simp add: bit_simps))

lemma join_byte3:
  "push_bit 6 ((push_bit 2 (b AND 15) OR drop_bit 6 c) AND 3) OR (c AND 63) = (c::byte)"
  unfolding three_mask fifteen_mask sixtythree_mask
  by (rule bit_word_eqI, simp, (erule bit_index_cases; simp add: bit_simps))

lemma join_byte1_pad:
  "push_bit 2 (drop_bit 2 a) OR drop_bit 4 (push_bit 4 (a AND 3)) = (a::byte)"
  unfolding three_mask
  by (rule bit_word_eqI, simp, (erule bit_index_cases; simp add: bit_simps))

lemma join_byte2_pad:
  "push_bit 4 ((push_bit 4 (a AND 3) OR drop_bit 4 b) AND 15)
     OR drop_bit 2 (push_bit 2 (b AND 15)) = (b::byte)"
  unfolding three_mask fifteen_mask
  by (rule bit_word_eqI, simp, (erule bit_index_cases; simp add: bit_simps))

lemma a2b_None_iff: "table_a2b_base64 c = None \<longleftrightarrow> c \<notin> set table_b2a_base64"
  unfolding table_a2b_base64_def
  by (rule map_of_zip_is_None) (simp add: length_table)

lemma pad_none: "table_a2b_base64 (CHR ''='') = None"
  by (simp add: a2b_None_iff table_b2a_base64_def)

lemma a2b_quad:
  assumes "v0 < 64" "v1 < 64" "v2 < 64" "v3 < 64"
  shows "a2b_base64 (b2a v0 # b2a v1 # b2a v2 # b2a v3 # rest) 0 lc p out =
         a2b_base64 rest 0 0 0 (out @ [push_bit 2 v0 OR drop_bit 4 v1,
            push_bit 4 (v1 AND 15) OR drop_bit 2 v2, push_bit 6 (v2 AND 3) OR v3])"
  using assms by (simp add: a2b_b2a b2a_not_pad)

lemma a2b_quad_two_bytes:
  assumes "v0 < 64" "v1 < 64" "v2 < 64"
  shows "a2b_base64 [b2a v0, b2a v1, b2a v2, CHR ''=''] 0 lc p out =
         Inr (out @ [push_bit 2 v0 OR drop_bit 4 v1, push_bit 4 (v1 AND 15) OR drop_bit 2 v2])"
  using assms by (simp add: a2b_b2a b2a_not_pad)

lemma a2b_quad_one_byte:
  assumes "v0 < 64" "v1 < 64"
  shows "a2b_base64 [b2a v0, b2a v1, CHR ''='', CHR ''=''] 0 lc p out =
         Inr (out @ [push_bit 2 v0 OR drop_bit 4 v1])"
  using assms by (simp add: a2b_b2a b2a_not_pad)

lemma a2b_b64encode: "a2b_base64 (b64encode bs) 0 lc p out = Inr (out @ bs)"
proof (induction bs arbitrary: lc p out rule: b64encode.induct)
  case 1
  show ?case by simp
next
  case (2 a)
  show ?case
    unfolding b64encode.simps
    by (simp only: a2b_quad_one_byte [OF sextet_first sextet_second_pad] join_byte1_pad)
next
  case (3 a b)
  show ?case
    unfolding b64encode.simps
    by (simp only: a2b_quad_two_bytes [OF sextet_first sextet_second sextet_third_pad]
        join_byte1 join_byte2_pad)
next
  case (4 a b c bs)
  show ?case unfolding b64encode.simps append_Cons append_Nil
    by (simp only: a2b_quad [OF sextet_first sextet_second sextet_third sextet_fourth]
        join_byte1 join_byte2 join_byte3 4 append_assoc append_Cons append_Nil)
qed

lemma b64encode_ascii: "\<not> list_ex (\<lambda>c. of_char c \<ge> (128::nat)) (b64encode bs)"
proof (induction bs rule: b64encode.induct)
  case 1
  show ?case by simp
next
  case (2 a)
  show ?case
    unfolding b64encode.simps
    using b2a_ascii [OF sextet_first, of a] b2a_ascii [OF sextet_second_pad, of a]
    by simp
next
  case (3 a b)
  show ?case
    unfolding b64encode.simps
    using b2a_ascii [OF sextet_first, of a] b2a_ascii [OF sextet_second, of a b]
      b2a_ascii [OF sextet_third_pad, of b]
    by simp
next
  case (4 a b c bs)
  then show ?case
    unfolding b64encode.simps append_Cons append_Nil
    using b2a_ascii [OF sextet_first, of a] b2a_ascii [OF sextet_second, of a b]
      b2a_ascii [OF sextet_third, of b c] b2a_ascii [OF sextet_fourth, of c]
    by simp
qed

lemma b64_roundtrip: "b64decode (b64encode bs) = Inr bs"
  by (simp add: b64decode_def b64encode_ascii a2b_b64encode)

lemma enc_png: "b64encode png_10x10 = png_10x10_base64"
  by (simp add: png_10x10_def png_10x10_base64_def b2a_def table_b2a_base64_def)

lemma dec_png: "b64decode png_10x10_base64 = Inr png_10x10"
  using b64_roundtrip [of png_10x10] by (simp only: enc_png)

lemma a2b_skip:
  assumes "c \<notin> set table_b2a_base64" and "c \<noteq> CHR ''=''"
  shows "a2b_base64 (pre @ c # post) q l p out = a2b_base64 (pre @ post) q l p out"
proof (induction pre arbitrary: q l p out)
  case Nil
  have "table_a2b_base64 c = None" using assms(1) by (simp add: a2b_None_iff)
  then show ?case using assms(2) by simp
next
  case (Cons x pre)
  show ?case by (simp add: Cons split: option.splits)
qed

lemma b64decode_skip:
  assumes "c \<notin> set table_b2a_base64" and "c \<noteq> CHR ''=''" and "(of_char c :: nat) < 128"
  shows "b64decode (pre @ c # post) = b64decode (pre @ post)"
  using assms(3) by (simp add: b64decode_def a2b_skip [OF assms(1,2)] not_le)

lemma dec_bang: "b64decode png_10x10_base64_bang = Inr png_10x10"
proof -
  have "CHR ''!'' \<notin> set table_b2a_base64" by (simp add: table_b2a_base64_def)
  then have "b64decode png_10x10_base64_bang = b64decode png_10x10_base64"
    unfolding png_10x10_base64_bang_def png_10x10_base64_def
    by (rule b64decode_skip) simp_all
  then show ?thesis by (simp only: dec_png)
qed

subsection \<open>The stand-in libraries, evaluated\<close>

lemma open_png: "base64_to_image test_libs png_10x10_base64 = Inr image_10x10"
  by (simp add: base64_to_image_def dec_png) (simp add: test_libs_def)

lemma open_bang: "base64_to_image test_libs png_10x10_base64_bang = Inr image_10x10"
  by (simp add: base64_to_image_def dec_bang) (simp add: test_libs_def)

lemma remove_10x10:
  "remove_background test_libs image_10x10 False world0
     = (Inr (image_10x10, 1 / 4), \<lparr>calls = [(image_10x10, None)], reads = 2\<rparr>)"
proof -
  have r: "remove test_libs image_10x10 (matting False) = Inr image_10x10"
    by (simp add: test_libs_def)
  show ?thesis
    unfolding remove_background_ok [OF validate_10x10 r]
    by (simp add: world0_def matting_def) (simp add: test_libs_def)
qed

lemma save_10x10: "image_to_base64 test_libs image_10x10 ''PNG'' = Inr png_10x10_base64"
  by (simp add: image_to_base64_def enc_png) (simp add: test_libs_def enc_png)

lemma round3_quarter: "round3 (1 / 4) = 1 / 4"
  by (simp add: round3_def Let_def)

lemma size_10x10: "size_wh image_10x10 = (10, 10)"
  by (simp add: image_10x10_def)




subsection \<open>Rounding to three decimals\<close>

lemma round3_grid: "\<exists>k::int. round3 x = of_int k / 1000"
  unfolding round3_def Let_def by blast

lemma round3_near: "\<bar>round3 x - x\<bar> \<le> 1 / 2000"
proof -
  define y where "y = x * 1000"
  define f where "f = \<lfloor>y\<rfloor>"
  define k where "k = (if y - of_int f < 1 / 2 then f else if 1 / 2 < y - of_int f then f + 1
                 else if even f then f else f + 1)"
  have lo: "of_int f \<le> y" and hi: "y < of_int f + 1"
    unfolding f_def by linarith+
  have r: "round3 x = of_int k / 1000"
    unfolding round3_def Let_def k_def y_def f_def by simp
  have d: "\<bar>of_int k - y\<bar> \<le> 1 / 2"
    unfolding k_def using lo hi by (auto simp: abs_le_iff)
  have "round3 x - x = (of_int k - y) / 1000"
    unfolding r y_def by (simp add: field_simps)
  then have "\<bar>round3 x - x\<bar> = \<bar>(of_int k - y) / 1000\<bar>" by (rule arg_cong)
  also have "\<dots> = \<bar>of_int k - y\<bar> / 1000" by (simp only: abs_divide abs_numeral)
  finally show ?thesis using d by simp
qed

subsection \<open>The route for base64 requests\<close>

lemma route_Inr:
  assumes "remove_background_base64 L req w = (Inr resp, w')"
  shows "remove_background_base64_try L req w = (Inr resp, w')"
  using assms unfolding remove_background_base64_def
  by (auto split: prod.splits sum.splits exn.splits)

lemma try_Inr:
  assumes "remove_background_base64_try L req w = (Inr resp, w')"
  shows "output_format req \<noteq> URL \<and>
    (\<exists>input_image output_image elapsed data.
       base64_to_image L (image_base64 req) = Inr input_image
     \<and> remove_background L input_image (post_process req) w = (Inr (output_image, elapsed), w')
     \<and> image_to_base64 L output_image ''PNG'' = Inr data
     \<and> resp = \<lparr>success = True, response_output_format = output_format req,
                 image_data = Some data, processing_time = round3 elapsed,
                 original_size = size_wh input_image, message = Some message_ok\<rparr>)"
  using assms unfolding remove_background_base64_try_def
  by (auto split: prod.splits sum.splits if_splits)

lemma base64_to_image_b64_fails:
  assumes "b64decode s = Inl e"
  shows "base64_to_image L s
     = Inl (ValueError (''Impossible de convertir le base64 en image : '' @ str_exn L e))"
  by (simp add: base64_to_image_def assms)

lemma post_invalid_base64:
  assumes "b64decode s = Inl e"
  shows "ImageProcessRequest_new s fmt pp = Inl (ValueError ''Le base64 fourni est invalide'')"
    and "post_remove_background L s fmt pp w
           = (Inl (ValueError ''Le base64 fourni est invalide''), w)"
  by (simp_all add: post_remove_background_def ImageProcessRequest_new_def validate_base64_def
      assms)

lemma post_valid_base64:
  assumes "b64decode s = Inr bs"
  shows "post_remove_background L s fmt pp w
           = remove_background_base64 L
               \<lparr>image_base64 = s, output_format = fmt, post_process = pp\<rparr> w"
  by (simp add: post_remove_background_def ImageProcessRequest_new_def validate_base64_def assms)

text \<open>
  C4, as amended. A text with a non-ASCII character is rejected by \<open>b64decode\<close>. Whenever
  \<open>b64decode\<close> rejects a text, \<open>base64_to_image\<close> raises a \<^verbatim>\<open>ValueError\<close> wrapping the
  cause, and a POST carrying the text fails in the schema validator while the request is
  built: the route is not called and the world is left as it was, so the model is not
  invoked. An ASCII character outside the base64 alphabet (other than the pad character) is
  not rejected: the conversion gives the same result as on the text without that character.
\<close>

theorem base64_to_image_rejects:
  "(list_ex (\<lambda>c. of_char c \<ge> (128::nat)) s \<longrightarrow>
      b64decode s = Inl (ValueError ''string argument should contain only ASCII characters''))
   \<and> (b64decode s = Inl e \<longrightarrow>
        base64_to_image L s
          = Inl (ValueError (''Impossible de convertir le base64 en image : '' @ str_exn L e))
      \<and> validate_base64 s = Inl (ValueError ''Le base64 fourni est invalide'')
      \<and> ImageProcessRequest_new s fmt pp = Inl (ValueError ''Le base64 fourni est invalide'')
      \<and> post_remove_background L s fmt pp w
          = (Inl (ValueError ''Le base64 fourni est invalide''), w))
   \<and> (c \<notin> set table_b2a_base64 \<and> c \<noteq> CHR ''='' \<and> (of_char c :: nat) < 128 \<longrightarrow>
        base64_to_image L (pre @ c # post) = base64_to_image L (pre @ post))"
proof (intro conjI impI)
  assume "list_ex (\<lambda>c. of_char c \<ge> (128::nat)) s"
  then show "b64decode s
        = Inl (ValueError ''string argument should contain only ASCII characters'')"
    by (simp add: b64decode_def)
next
  assume e: "b64decode s = Inl e"
  show "base64_to_image L s
          = Inl (ValueError (''Impossible de convertir le base64 en image : '' @ str_exn L e))"
    by (rule base64_to_image_b64_fails [OF e])
  show "validate_base64 s = Inl (ValueError ''Le base64 fourni est invalide'')"
    by (simp add: validate_base64_def e)
  show "ImageProcessRequest_new s fmt pp = Inl (ValueError ''Le base64 fourni est invalide'')"
    by (rule post_invalid_base64 [OF e])
  show "post_remove_background L s fmt pp w
          = (Inl (ValueError ''Le base64 fourni est invalide''), w)"
    by (rule post_invalid_base64 [OF e])
next
  assume "c \<notin> set table_b2a_base64 \<and> c \<noteq> CHR ''='' \<and> (of_char c :: nat) < 128"
  then have "b64decode (pre @ c # post) = b64decode (pre @ post)"
    by (simp add: b64decode_skip)
  then show "base64_to_image L (pre @ c # post) = base64_to_image L (pre @ post)"
    by (simp add: base64_to_image_def)
qed

lemma accent_not_ascii: "list_ex (\<lambda>c. of_char c \<ge> (128::nat)) text_accent"
  by (simp add: text_accent_def)

theorem base64_to_image_rejects_witness:
  "list_ex (\<lambda>c. of_char c \<ge> (128::nat)) text_accent
   \<and> base64_to_image test_libs text_accent
        = Inl (ValueError (''Impossible de convertir le base64 en image : ''
                           @ ''string argument should contain only ASCII characters''))
   \<and> validate_base64 text_accent = Inl (ValueError ''Le base64 fourni est invalide'')
   \<and> post_remove_background test_libs text_accent BASE64 False world0
        = (Inl (ValueError ''Le base64 fourni est invalide''), world0)
   \<and> base64_to_image test_libs png_10x10_base64_bang
        = base64_to_image test_libs png_10x10_base64"
proof -
  let ?e = "ValueError ''string argument should contain only ASCII characters''"
  note t = base64_to_image_rejects [of text_accent ?e test_libs BASE64 False world0 "CHR ''!''"
      "''iVBORw0KGgoAAAANSUhE''"
      "''UgAAAAoAAAAKCAAAAACoWZBhAAAADElEQVR42mNgoCcAAABuAAF2oKnPAAAAAElFTkSuQmCC''"]
  have d: "b64decode text_accent = Inl ?e"
    using t accent_not_ascii by blast
  have i: "base64_to_image test_libs text_accent
        = Inl (ValueError (''Impossible de convertir le base64 en image : ''
                           @ str_exn test_libs ?e))"
    using t d by blast
  have v: "validate_base64 text_accent = Inl (ValueError ''Le base64 fourni est invalide'')"
    using t d by blast
  have r: "post_remove_background test_libs text_accent BASE64 False world0
        = (Inl (ValueError ''Le base64 fourni est invalide''), world0)"
    using t d by blast
  have c: "CHR ''!'' \<notin> set table_b2a_base64 \<and> CHR ''!'' \<noteq> CHR ''=''
            \<and> (of_char (CHR ''!'') :: nat) < 128"
    by (simp add: table_b2a_base64_def)
  have s: "base64_to_image test_libs png_10x10_base64_bang
        = base64_to_image test_libs png_10x10_base64"
    unfolding png_10x10_base64_bang_def png_10x10_base64_def using t c by blast
  show ?thesis using accent_not_ascii i v r s by (simp add: str_exn_def)
qed

theorem base64_to_image_rejects_counterexample:
  "CHR ''!'' \<in> set png_10x10_base64_bang
   \<and> CHR ''!'' \<notin> set table_b2a_base64
   \<and> validate_base64 png_10x10_base64_bang = Inr png_10x10_base64_bang
   \<and> ImageProcessRequest_new png_10x10_base64_bang BASE64 False = Inr request_bang
   \<and> base64_to_image test_libs png_10x10_base64_bang = Inr image_10x10
   \<and> post_remove_background test_libs png_10x10_base64_bang BASE64 False world0
   = (Inr \<lparr>success = True, response_output_format = BASE64,
            image_data = Some png_10x10_base64, processing_time = 1 / 4,
            original_size = (10, 10), message = Some message_ok\<rparr>,
      \<lparr>calls = [(image_10x10, None)], reads = 2\<rparr>)"
proof -
  have a: "CHR ''!'' \<in> set png_10x10_base64_bang" by (simp add: png_10x10_base64_bang_def)
  have b: "CHR ''!'' \<notin> set table_b2a_base64" by (simp add: table_b2a_base64_def)
  have c: "validate_base64 png_10x10_base64_bang = Inr png_10x10_base64_bang"
    by (simp add: validate_base64_def dec_bang)
  have n: "ImageProcessRequest_new png_10x10_base64_bang BASE64 False = Inr request_bang"
    by (simp add: ImageProcessRequest_new_def c request_bang_def)
  have d: "remove_background_base64 test_libs request_bang world0
   = (Inr \<lparr>success = True, response_output_format = BASE64,
            image_data = Some png_10x10_base64, processing_time = 1 / 4,
            original_size = (10, 10), message = Some message_ok\<rparr>,
      \<lparr>calls = [(image_10x10, None)], reads = 2\<rparr>)"
    by (simp add: remove_background_base64_def remove_background_base64_try_def request_bang_def
      open_bang remove_10x10 save_10x10 round3_quarter size_10x10)
  have p: "post_remove_background test_libs png_10x10_base64_bang BASE64 False world0
   = (Inr \<lparr>success = True, response_output_format = BASE64,
            image_data = Some png_10x10_base64, processing_time = 1 / 4,
            original_size = (10, 10), message = Some message_ok\<rparr>,
      \<lparr>calls = [(image_10x10, None)], reads = 2\<rparr>)"
    by (simp add: post_remove_background_def n d)
  show ?thesis using a b c n p open_bang by blast
qed

text \<open>
  C7, as amended. A successful request has the output format \<^verbatim>\<open>base64\<close> or
  \<^verbatim>\<open>binary\<close>, and for both its image data is the base64 text of the PNG bytes of the
  model's output; the response carries the size of the decoded input image and the elapsed
  time between the two clock readings rounded to a multiple of one thousandth, at most half
  a thousandth away from it.
\<close>

theorem remove_background_base64_response:
  assumes "remove_background_base64 L req w = (Inr resp, w')"
  shows "output_format req \<noteq> URL \<and>
    (\<exists>input_image output_image png.
       base64_to_image L (image_base64 req) = Inr input_image
     \<and> remove L input_image (matting (post_process req)) = Inr output_image
     \<and> Image_save L output_image ''PNG'' = Inr png
     \<and> image_data resp = Some (b64encode png)
     \<and> original_size resp = size_wh input_image
     \<and> processing_time resp = round3 (clock L (Suc (reads w)) - clock L (reads w))
     \<and> \<bar>processing_time resp - (clock L (Suc (reads w)) - clock L (reads w))\<bar> \<le> 1 / 2000
     \<and> (\<exists>k::int. processing_time resp = of_int k / 1000)
     \<and> success resp \<and> response_output_format resp = output_format req)"
proof -
  from try_Inr [OF route_Inr [OF assms]]
  obtain input_image output_image elapsed data where
    u: "output_format req \<noteq> URL"
    and i: "base64_to_image L (image_base64 req) = Inr input_image"
    and r: "remove_background L input_image (post_process req) w = (Inr (output_image, elapsed), w')"
    and d: "image_to_base64 L output_image ''PNG'' = Inr data"
    and resp: "resp = \<lparr>success = True, response_output_format = output_format req,
                 image_data = Some data, processing_time = round3 elapsed,
                 original_size = size_wh input_image, message = Some message_ok\<rparr>"
    by blast
  from remove_background_Inr [OF r]
  have m: "remove L input_image (matting (post_process req)) = Inr output_image"
    and t: "elapsed = clock L (Suc (reads w)) - clock L (reads w)" by simp_all
  from d obtain png where s: "Image_save L output_image ''PNG'' = Inr png"
    and data: "data = b64encode png"
    by (auto simp: image_to_base64_def split: sum.splits)
  have p: "processing_time resp = round3 (clock L (Suc (reads w)) - clock L (reads w))"
    by (simp add: resp t)
  show ?thesis
    using u i m s p round3_near [of "clock L (Suc (reads w)) - clock L (reads w)"]
      round3_grid [of "clock L (Suc (reads w)) - clock L (reads w)"]
    by (auto simp: resp data)
qed

lemma route_base64:
  "remove_background_base64 test_libs request_base64 world0
   = (Inr \<lparr>success = True, response_output_format = BASE64,
            image_data = Some png_10x10_base64, processing_time = 1 / 4,
            original_size = (10, 10), message = Some message_ok\<rparr>,
      \<lparr>calls = [(image_10x10, None)], reads = 2\<rparr>)"
  by (simp add: remove_background_base64_def remove_background_base64_try_def request_base64_def
      open_png remove_10x10 save_10x10 round3_quarter size_10x10)

theorem remove_background_base64_response_witness:
  "remove_background_base64 test_libs request_base64 world0
   = (Inr \<lparr>success = True, response_output_format = BASE64,
            image_data = Some png_10x10_base64, processing_time = 1 / 4,
            original_size = (10, 10), message = Some message_ok\<rparr>,
      \<lparr>calls = [(image_10x10, None)], reads = 2\<rparr>)
   \<and> output_format request_base64 \<noteq> URL"
  using route_base64 remove_background_base64_response [OF route_base64] by blast

theorem remove_background_base64_response_counterexample:
  "remove_background_base64 test_libs request_binary world0
   = (Inr \<lparr>success = True, response_output_format = BINARY,
            image_data = Some png_10x10_base64, processing_time = 1 / 4,
            original_size = (10, 10), message = Some message_ok\<rparr>,
      \<lparr>calls = [(image_10x10, None)], reads = 2\<rparr>)
   \<and> image_to_bytes test_libs image_10x10 ''PNG'' = Inr png_10x10
   \<and> b64encode png_10x10 = png_10x10_base64
   \<and> png_10x10_base64 \<noteq> map (char_of \<circ> unat) png_10x10"
proof -
  have a: "remove_background_base64 test_libs request_binary world0
   = (Inr \<lparr>success = True, response_output_format = BINARY,
            image_data = Some png_10x10_base64, processing_time = 1 / 4,
            original_size = (10, 10), message = Some message_ok\<rparr>,
      \<lparr>calls = [(image_10x10, None)], reads = 2\<rparr>)"
    by (simp add: remove_background_base64_def remove_background_base64_try_def
        request_binary_def open_png remove_10x10 save_10x10 round3_quarter size_10x10)
  have b: "image_to_bytes test_libs image_10x10 ''PNG'' = Inr png_10x10"
    by (simp add: image_to_bytes_def test_libs_def)
  have "length png_10x10_base64 \<noteq> length (map (char_of \<circ> unat) png_10x10)"
    by (simp add: png_10x10_base64_def png_10x10_def)
  then have c: "png_10x10_base64 \<noteq> map (char_of \<circ> unat) png_10x10" by metis
  show ?thesis using a b c enc_png by blast
qed

text \<open>
  C6. A request for the output format \<^verbatim>\<open>url\<close> whose image is valid: the
  \<^verbatim>\<open>HTTPException\<close> with status 501 is raised inside the \<^verbatim>\<open>try\<close> statement, caught by
  its \<^verbatim>\<open>except Exception\<close> clause and replaced by one with status 500, after the model
  has been invoked.
\<close>

theorem remove_background_base64_url_status_500:
  "remove_background_base64 test_libs request_url world0
   = (Inl (HTTPException 500
             (''Erreur lors du traitement de l'' @ [CHR 0x27] @ ''image : 501: ''
              @ detail_url)),
      \<lparr>calls = [(image_10x10, None)], reads = 2\<rparr>)"
proof -
  have "str_nat 501 = ''501''" by (simp add: str_nat.simps)
  then have h: "http_str test_libs 501 detail_url = ''501: '' @ detail_url"
    by (simp add: test_libs_def)
  show ?thesis
    by (simp add: remove_background_base64_def remove_background_base64_try_def
        request_url_def open_png remove_10x10 str_exn_def h)
qed

lemma route_url_never_501:
  assumes "output_format req = URL"
  shows "\<exists>c d. fst (remove_background_base64 L req w) = Inl (HTTPException c d)
           \<and> (c = 400 \<or> c = 500)"
  using assms unfolding remove_background_base64_def remove_background_base64_try_def
  by (auto split: prod.splits sum.splits exn.splits)

end
